theory Spec2Isabelle
  imports Main "HOL-Library.Word" "HOL-Library.Sublist"
begin

section \<open>Data model (types.ts)\<close>

text \<open>
  JavaScript strings are sequences of 16-bit code units. The Arabic text the application
  handles lies outside the 8-bit range of \<^typ>\<open>char\<close>, so a string of the program is a
  list of 16-bit words; \<open>js\<close> embeds an ASCII literal.
\<close>

type_synonym jschar = "16 word"
type_synonym jsstring = "jschar list"

definition js :: "string \<Rightarrow> jsstring" where
  "js s = map (\<lambda>c. of_nat (of_char c)) s"

text \<open>
  \<^verbatim>\<open>interface TranslationPair { arabic: string; english: string; numberPronunciation?: string }\<close>
  \<^verbatim>\<open>interface ProcessingResult { title?: string; author?: string; content: TranslationPair[];
     currentPage: number; hasMore: boolean }\<close>
  An optional property is an \<open>option\<close>. The record of a \<open>ProcessingResult\<close> leaves the
  types of its positions open, for it is read in two ways: at the types the interface
  declares (\<open>typed_result\<close>, a page number being an integer), and as the run time has it
  (\<open>raw_result\<close>, further down), where the cast \<open>as ProcessingResult\<close> has checked nothing
  and any JSON value may stand in any position.
\<close>

record TranslationPair =
  arabic :: jsstring
  english :: jsstring
  numberPronunciation :: "jsstring option"

record ('t, 'e, 'p, 'h) ProcessingResult =
  title :: "'t option"
  author :: "'t option"
  content :: "'e list"
  currentPage :: 'p
  hasMore :: 'h

type_synonym typed_result = "(jsstring, TranslationPair, int, bool) ProcessingResult"

section \<open>Page accumulation (App.tsx, loadNextPage, lines 63-71)\<close>

text \<open>
  The state updater passed to \<open>setResult\<close>:
  \<^verbatim>\<open>prev => { if (!prev) return nextData;
             return { ...nextData, content: [...prev.content, ...nextData.content],
                      currentPage: nextPage, hasMore: nextData.hasMore }; }\<close>
  \<open>nextPage\<close> and \<open>nextData\<close> are captured from the enclosing call of
  \<open>loadNextPage\<close>; \<open>prev\<close> is the state at the time the update is applied.
\<close>

definition mergePage ::
  "'p \<Rightarrow> ('t, 'e, 'p, 'h) ProcessingResult option \<Rightarrow> ('t, 'e, 'p, 'h) ProcessingResult
     \<Rightarrow> ('t, 'e, 'p, 'h) ProcessingResult" where
  "mergePage nextPage prev nextData =
     (case prev of
        None \<Rightarrow> nextData
      | Some p \<Rightarrow> nextData\<lparr>content := content p @ content nextData,
                             currentPage := nextPage,
                             hasMore := hasMore nextData\<rparr>)"

section \<open>JSON.parse\<close>

text \<open>
  \<open>processArabicPdf\<close> hands the reply text to \<open>JSON.parse\<close>, a function of the
  JavaScript platform. \<open>JSON_parse\<close> below follows the JSON grammar (ECMA-404) that
  \<open>JSON.parse\<close> implements; \<open>None\<close> is the \<open>SyntaxError\<close>.
  \<^item> White space is tab, line feed, carriage return and space.
  \<^item> A string is delimited by double quotes, holds no raw code unit below 0x20 and knows
    the escapes \<^verbatim>\<open>\" \\ \/ \b \f \n \r \t \uXXXX\<close>.
  \<^item> A number is an optional minus, an integer part without superfluous leading zero, an
    optional fraction and an optional exponent. It keeps its literal: its value as a
    double is not computed here.
  \<^item> A later duplicate key of an object replaces the value of the earlier one.
  \<^item> Limits of an engine on the nesting depth are not modelled.
\<close>

datatype json =
    JNull
  | JBool bool
  | JNum jsstring
  | JStr jsstring
  | JArr "json list"
  | JObj "(jsstring \<times> json) list"

text \<open>
  The text is cut into tokens first. \<open>lex_string\<close> reads a string after its opening quote
  and returns its code units with the number of code units read, the closing quote
  included; \<open>lex_number\<close> returns the length of the number literal the text starts with.
\<close>

datatype token =
    TLBrace | TRBrace | TLBrack | TRBrack | TColon | TComma
  | TStr jsstring | TNum jsstring | TTrue | TFalse | TNull

definition is_ws :: "jschar \<Rightarrow> bool" where
  "is_ws c \<longleftrightarrow> c = 0x09 \<or> c = 0x0A \<or> c = 0x0D \<or> c = 0x20"

definition is_digit :: "jschar \<Rightarrow> bool" where
  "is_digit c \<longleftrightarrow> 0x30 \<le> c \<and> c \<le> 0x39"

definition hex_digit :: "jschar \<Rightarrow> jschar option" where
  "hex_digit c =
     (if 0x30 \<le> c \<and> c \<le> 0x39 then Some (c - 0x30)
      else if 0x41 \<le> c \<and> c \<le> 0x46 then Some (c - 0x37)
      else if 0x61 \<le> c \<and> c \<le> 0x66 then Some (c - 0x57)
      else None)"

definition hex4 :: "jschar \<Rightarrow> jschar \<Rightarrow> jschar \<Rightarrow> jschar \<Rightarrow> jschar option" where
  "hex4 a b c d =
     (case (hex_digit a, hex_digit b, hex_digit c, hex_digit d) of
        (Some x, Some y, Some z, Some w) \<Rightarrow> Some (((x * 16 + y) * 16 + z) * 16 + w)
      | _ \<Rightarrow> None)"

definition unescape :: "jschar \<Rightarrow> jschar option" where
  "unescape e =
     (if e = 0x22 then Some 0x22
      else if e = 0x5C then Some 0x5C
      else if e = 0x2F then Some 0x2F
      else if e = 0x62 then Some 0x08
      else if e = 0x66 then Some 0x0C
      else if e = 0x6E then Some 0x0A
      else if e = 0x72 then Some 0x0D
      else if e = 0x74 then Some 0x09
      else None)"

fun lex_string :: "jsstring \<Rightarrow> (jsstring \<times> nat) option" where
  "lex_string [] = None"
| "lex_string (c # cs) =
     (if c = 0x22 then Some ([], 1)
      else if c = 0x5C then
        (case cs of
           [] \<Rightarrow> None
         | e # cs1 \<Rightarrow>
             if e = 0x75 then
               (case cs1 of
                  h1 # h2 # h3 # h4 # cs2 \<Rightarrow>
                    (case hex4 h1 h2 h3 h4 of
                       None \<Rightarrow> None
                     | Some u \<Rightarrow> map_option (\<lambda>(s, n). (u # s, n + 6)) (lex_string cs2))
                | _ \<Rightarrow> None)
             else
               (case unescape e of
                  None \<Rightarrow> None
                | Some u \<Rightarrow> map_option (\<lambda>(s, n). (u # s, n + 2)) (lex_string cs1)))
      else if c < 0x20 then None
      else map_option (\<lambda>(s, n). (c # s, n + 1)) (lex_string cs))"

definition digits :: "jsstring \<Rightarrow> nat" where
  "digits cs = length (takeWhile is_digit cs)"

definition int_part :: "jsstring \<Rightarrow> nat option" where
  "int_part cs =
     (case cs of
        [] \<Rightarrow> None
      | c # r \<Rightarrow> if c = 0x30 then Some 1
                 else if is_digit c then Some (1 + digits r)
                 else None)"

definition frac_part :: "jsstring \<Rightarrow> nat" where
  "frac_part cs =
     (case cs of
        c # d # r \<Rightarrow> if c = 0x2E \<and> is_digit d then 2 + digits r else 0
      | _ \<Rightarrow> 0)"

definition exp_part :: "jsstring \<Rightarrow> nat" where
  "exp_part cs =
     (case cs of
        [] \<Rightarrow> 0
      | c # r \<Rightarrow>
          if c = 0x65 \<or> c = 0x45 then
            (let s = (case r of [] \<Rightarrow> 0 | x # _ \<Rightarrow> if x = 0x2B \<or> x = 0x2D then 1 else (0::nat));
                 d = digits (drop s r)
             in if d = 0 then 0 else 1 + s + d)
          else 0)"

definition lex_number :: "jsstring \<Rightarrow> nat option" where
  "lex_number cs =
     (let m = (case cs of [] \<Rightarrow> 0 | c # _ \<Rightarrow> if c = 0x2D then 1 else (0::nat)) in
      case int_part (drop m cs) of
        None \<Rightarrow> None
      | Some i \<Rightarrow>
          let f = frac_part (drop (m + i) cs);
              e = exp_part (drop (m + i + f) cs)
          in Some (m + i + f + e))"

fun lex :: "jsstring \<Rightarrow> token list option" where
  "lex [] = Some []"
| "lex (c # cs) =
     (if is_ws c then lex cs
      else if c = 0x7B then map_option (Cons TLBrace) (lex cs)
      else if c = 0x7D then map_option (Cons TRBrace) (lex cs)
      else if c = 0x5B then map_option (Cons TLBrack) (lex cs)
      else if c = 0x5D then map_option (Cons TRBrack) (lex cs)
      else if c = 0x3A then map_option (Cons TColon) (lex cs)
      else if c = 0x2C then map_option (Cons TComma) (lex cs)
      else if c = 0x22 then
        (case lex_string cs of
           None \<Rightarrow> None
         | Some (s, n) \<Rightarrow> map_option (Cons (TStr s)) (lex (drop n cs)))
      else if c = 0x2D \<or> is_digit c then
        (case lex_number (c # cs) of
           None \<Rightarrow> None
         | Some n \<Rightarrow> map_option (Cons (TNum (take n (c # cs)))) (lex (drop (n - 1) cs)))
      else if take 4 (c # cs) = js ''true'' then map_option (Cons TTrue) (lex (drop 3 cs))
      else if take 5 (c # cs) = js ''false'' then map_option (Cons TFalse) (lex (drop 4 cs))
      else if take 4 (c # cs) = js ''null'' then map_option (Cons TNull) (lex (drop 3 cs))
      else None)"

text \<open>
  The tokens are read by a machine with a stack of the arrays and objects that are open:
  \<open>FArr\<close> with the elements so far, \<open>FObj\<close> with the members so far, \<open>FMember\<close> while the
  value of a key is being read. The mode says what may come next; \<open>MAfter v\<close> says that
  the value \<open>v\<close> is complete. The text is a JSON text when its tokens leave the machine
  with an empty stack after one value.
\<close>

fun put :: "'k \<Rightarrow> 'v \<Rightarrow> ('k \<times> 'v) list \<Rightarrow> ('k \<times> 'v) list" where
  "put k v [] = [(k, v)]"
| "put k v ((k', v') # ms) = (if k = k' then (k, v) # ms else (k', v') # put k v ms)"

datatype frame =
    FArr "json list"
  | FObj "(jsstring \<times> json) list"
  | FMember "(jsstring \<times> json) list" jsstring

datatype mode = MValue | MArrFirst | MObjFirst | MKey | MColon jsstring | MAfter json

definition scalar :: "token \<Rightarrow> json option" where
  "scalar t =
     (case t of
        TStr s \<Rightarrow> Some (JStr s)
      | TNum n \<Rightarrow> Some (JNum n)
      | TTrue \<Rightarrow> Some (JBool True)
      | TFalse \<Rightarrow> Some (JBool False)
      | TNull \<Rightarrow> Some JNull
      | _ \<Rightarrow> None)"

definition begin_value :: "frame list \<Rightarrow> token \<Rightarrow> (frame list \<times> mode) option" where
  "begin_value st t =
     (if t = TLBrack then Some (FArr [] # st, MArrFirst)
      else if t = TLBrace then Some (FObj [] # st, MObjFirst)
      else map_option (\<lambda>v. (st, MAfter v)) (scalar t))"

definition pstep :: "frame list \<Rightarrow> mode \<Rightarrow> token \<Rightarrow> (frame list \<times> mode) option" where
  "pstep st m t =
     (case m of
        MValue \<Rightarrow> begin_value st t
      | MArrFirst \<Rightarrow>
          (case st of
             FArr es # st' \<Rightarrow> if t = TRBrack then Some (st', MAfter (JArr es)) else begin_value st t
           | _ \<Rightarrow> None)
      | MObjFirst \<Rightarrow>
          (case (st, t) of
             (FObj ms # st', TRBrace) \<Rightarrow> Some (st', MAfter (JObj ms))
           | (FObj ms # st', TStr k) \<Rightarrow> Some (st, MColon k)
           | _ \<Rightarrow> None)
      | MKey \<Rightarrow> (case t of TStr k \<Rightarrow> Some (st, MColon k) | _ \<Rightarrow> None)
      | MColon k \<Rightarrow>
          (case (st, t) of
             (FObj ms # st', TColon) \<Rightarrow> Some (FMember ms k # st', MValue)
           | _ \<Rightarrow> None)
      | MAfter v \<Rightarrow>
          (case (st, t) of
             (FArr es # st', TComma) \<Rightarrow> Some (FArr (es @ [v]) # st', MValue)
           | (FArr es # st', TRBrack) \<Rightarrow> Some (st', MAfter (JArr (es @ [v])))
           | (FMember ms k # st', TComma) \<Rightarrow> Some (FObj (put k v ms) # st', MKey)
           | (FMember ms k # st', TRBrace) \<Rightarrow> Some (st', MAfter (JObj (put k v ms)))
           | _ \<Rightarrow> None))"

fun parse_tokens :: "frame list \<Rightarrow> mode \<Rightarrow> token list \<Rightarrow> json option" where
  "parse_tokens st m [] = (case (st, m) of ([], MAfter v) \<Rightarrow> Some v | _ \<Rightarrow> None)"
| "parse_tokens st m (t # ts) =
     (case pstep st m t of
        None \<Rightarrow> None
      | Some (st', m') \<Rightarrow> parse_tokens st' m' ts)"

definition JSON_parse :: "jsstring \<Rightarrow> json option" where
  "JSON_parse text = (case lex text of None \<Rightarrow> None | Some ts \<Rightarrow> parse_tokens [] MValue ts)"

section \<open>A parsed value at its declared type\<close>

text \<open>
  \<open>JSON.parse(...) as ProcessingResult\<close> is an unchecked cast: the value returned is
  whatever the reply text denotes. \<open>as_ProcessingResult\<close> reads such a value at the
  interface \<open>ProcessingResult\<close> of types.ts, with the page number as an integer, and is
  \<open>None\<close> when the value does not have that shape: a required property is missing or has
  another type, or the page number is not an integer literal of magnitude at most
  \<open>2^53\<close> (the integers a double holds without gaps). Properties the interface does not
  name are ignored. \<open>conforms\<close> is the interface alone: it asks for a number as page
  number, not for an integer.
\<close>

definition optional_string :: "json option \<Rightarrow> jsstring option option" where
  "optional_string v =
     (case v of
        None \<Rightarrow> Some None
      | Some (JStr s) \<Rightarrow> Some (Some s)
      | Some _ \<Rightarrow> None)"

definition int_of_lexeme :: "jsstring \<Rightarrow> int option" where
  "int_of_lexeme cs =
     (let neg = (take 1 cs = [0x2D]);
          ds = (if neg then drop 1 cs else cs)
      in if ds \<noteq> [] \<and> list_all is_digit ds then
           (let n = foldl (\<lambda>a d. 10 * a + uint (d - 0x30)) 0 ds
            in if n \<le> 9007199254740992 then Some (if neg then - n else n) else None)
         else None)"

definition as_TranslationPair :: "json \<Rightarrow> TranslationPair option" where
  "as_TranslationPair v =
     (case v of
        JObj ms \<Rightarrow>
          (case (map_of ms (js ''arabic''), map_of ms (js ''english''),
                 optional_string (map_of ms (js ''numberPronunciation''))) of
             (Some (JStr a), Some (JStr e), Some np) \<Rightarrow>
               Some \<lparr>arabic = a, english = e, numberPronunciation = np\<rparr>
           | _ \<Rightarrow> None)
      | _ \<Rightarrow> None)"

definition as_ProcessingResult :: "json \<Rightarrow> typed_result option" where
  "as_ProcessingResult v =
     (case v of
        JObj ms \<Rightarrow>
          (case (optional_string (map_of ms (js ''title'')),
                 optional_string (map_of ms (js ''author'')),
                 map_of ms (js ''content''),
                 map_of ms (js ''currentPage''),
                 map_of ms (js ''hasMore'')) of
             (Some t, Some a, Some (JArr vs), Some (JNum n), Some (JBool h)) \<Rightarrow>
               (case (those (map as_TranslationPair vs), int_of_lexeme n) of
                  (Some ps, Some p) \<Rightarrow>
                    Some \<lparr>title = t, author = a, content = ps, currentPage = p, hasMore = h\<rparr>
                | _ \<Rightarrow> None)
           | _ \<Rightarrow> None)
      | _ \<Rightarrow> None)"



section \<open>A parsed value as the component uses it\<close>

text \<open>
  The component stores whatever \<open>processArabicPdf\<close> returned and works on it with
  JavaScript's untyped operations. What these do with a JSON value:
  \<^item> \<open>own v k\<close> is the property read \<open>v.k\<close> of a value other than \<open>null\<close>, for the eight
    names the component reads: the member of an object, undefined (\<open>None\<close>) for an array,
    a string, a number or a boolean, none of which has such a property.
  \<^item> \<open>truthy\<close>: \<open>null\<close>, \<open>false\<close>, the empty string and a number that is zero are falsy.
    A number literal is zero as a double when its digits are all zero or when it lies at
    or below the half of the smallest double, \<open>2^-1075\<close>, and so rounds to zero; with
    digits \<open>d\<close> and \<open>k\<close> decimal places that is \<open>d * 2^1075 \<le> 10^k\<close>, which no \<open>k\<close>
    below 324 satisfies.
  \<^item> \<open>array_items\<close>: what \<open>.map\<close> can be called on, an array. \<open>iterate\<close>: what the
    spread \<open>[...x]\<close> accepts, an array or a string, the latter giving its code points
    one by one; on anything else the spread throws.
  \<^item> \<open>renderable\<close>: React renders a string or a number, nothing for a boolean or
    \<open>null\<close>, the elements of an array in turn, and throws on an object.
  \<^item> A page number is a value that was parsed, or undefined, or the sum \<open>x + 1\<close> of
    line 60. The sum is kept as a term, \<open>Plus\<close>: in JavaScript it is a rounded double or,
    for a string, a concatenation, and the model does not compute it. \<open>number_of\<close>
    gives the integer a page number is where the arithmetic is exact: for an integer
    literal of magnitude at most \<open>2^53\<close>, and for a sum of two such integers that stays
    in this range.
\<close>

datatype jsvalue = Undefined | Json json | Plus jsvalue jsvalue

instantiation jsvalue :: "{one, plus}"
begin

definition one_jsvalue :: jsvalue where
  "one_jsvalue = Json (JNum (js ''1''))"

definition plus_jsvalue :: "jsvalue \<Rightarrow> jsvalue \<Rightarrow> jsvalue" where
  "plus_jsvalue a b = Plus a b"

instance ..

end

type_synonym raw_result = "(json, json, jsvalue, json option) ProcessingResult"

definition own :: "json \<Rightarrow> string \<Rightarrow> json option" where
  "own v k = (case v of JObj ms \<Rightarrow> map_of ms (js k) | _ \<Rightarrow> None)"

definition nat_of_digits :: "jsstring \<Rightarrow> nat" where
  "nat_of_digits ds = foldl (\<lambda>a d. 10 * a + unat (d - 0x30)) 0 ds"

definition zero_literal :: "jsstring \<Rightarrow> bool" where
  "zero_literal l =
     (let body = (if take 1 l = [0x2D] then drop 1 l else l);
          ip = takeWhile is_digit body;
          r1 = dropWhile is_digit body;
          fp = (if take 1 r1 = [0x2E] then takeWhile is_digit (drop 1 r1) else []);
          r2 = (if take 1 r1 = [0x2E] then dropWhile is_digit (drop 1 r1) else r1);
          ex = (if r2 = [] then 0
                else if take 1 (drop 1 r2) = [0x2D] then - int (nat_of_digits (drop 2 r2))
                else if take 1 (drop 1 r2) = [0x2B] then int (nat_of_digits (drop 2 r2))
                else int (nat_of_digits (drop 1 r2)));
          d = nat_of_digits (ip @ fp);
          t = ex - int (length fp)
      in if d = 0 then True
         else if - t < 324 then False
         else d * 2 ^ 1075 \<le> 10 ^ nat (- t))"

definition truthy :: "json \<Rightarrow> bool" where
  "truthy v =
     (case v of
        JNull \<Rightarrow> False
      | JBool b \<Rightarrow> b
      | JNum l \<Rightarrow> \<not> zero_literal l
      | JStr s \<Rightarrow> s \<noteq> []
      | JArr vs \<Rightarrow> True
      | JObj ms \<Rightarrow> True)"

definition truthy_opt :: "json option \<Rightarrow> bool" where
  "truthy_opt v = (case v of None \<Rightarrow> False | Some w \<Rightarrow> truthy w)"

fun code_points :: "jsstring \<Rightarrow> jsstring list" where
  "code_points (c # d # cs) =
     (if 0xD800 \<le> c \<and> c \<le> 0xDBFF \<and> 0xDC00 \<le> d \<and> d \<le> 0xDFFF
      then [c, d] # code_points cs
      else [c] # code_points (d # cs))"
| "code_points [c] = [[c]]"
| "code_points [] = []"

definition array_items :: "json option \<Rightarrow> json list option" where
  "array_items v = (case v of Some (JArr vs) \<Rightarrow> Some vs | _ \<Rightarrow> None)"

definition iterate :: "json option \<Rightarrow> json list option" where
  "iterate v =
     (case v of
        Some (JArr vs) \<Rightarrow> Some vs
      | Some (JStr s) \<Rightarrow> Some (map JStr (code_points s))
      | _ \<Rightarrow> None)"

fun renderable :: "json \<Rightarrow> bool" where
  "renderable (JObj ms) = False"
| "renderable (JArr vs) = (\<forall>v \<in> set vs. renderable v)"
| "renderable v = True"

definition child :: "json option \<Rightarrow> bool" where
  "child v = (case v of None \<Rightarrow> True | Some w \<Rightarrow> renderable w)"

definition page_child :: "jsvalue \<Rightarrow> bool" where
  "page_child p = (case p of Json v \<Rightarrow> renderable v | _ \<Rightarrow> True)"

fun number_of :: "jsvalue \<Rightarrow> int option" where
  "number_of Undefined = None"
| "number_of (Json v) = (case v of JNum l \<Rightarrow> int_of_lexeme l | _ \<Rightarrow> None)"
| "number_of (Plus a b) =
     (case (number_of a, number_of b) of
        (Some x, Some y) \<Rightarrow> if \<bar>x + y\<bar> \<le> 9007199254740992 then Some (x + y) else None
      | _ \<Rightarrow> None)"


text \<open>
  \<open>reading items v\<close> is the value \<open>v\<close> as the component reads it, with \<open>items\<close> for its
  content; properties the component never reads are not kept. \<open>renders\<close> says that the
  result view (lines 164-251) renders: it reads \<open>pair.arabic\<close> of every element of the
  content, which throws on \<open>null\<close>, and hands page number, title, author and the three
  texts of every pair to React as children. A falsy title or author is not rendered
  itself, and a falsy value is renderable anyway.
\<close>

definition reading :: "json list \<Rightarrow> json \<Rightarrow> raw_result" where
  "reading items v =
     \<lparr>title = own v ''title'',
      author = own v ''author'',
      content = items,
      currentPage = (case own v ''currentPage'' of None \<Rightarrow> Undefined | Some c \<Rightarrow> Json c),
      hasMore = own v ''hasMore''\<rparr>"

definition pair_renders :: "json \<Rightarrow> bool" where
  "pair_renders pair \<longleftrightarrow>
     pair \<noteq> JNull \<and> child (own pair ''arabic'') \<and> child (own pair ''english'')
     \<and> child (own pair ''numberPronunciation'')"

definition renders :: "raw_result \<Rightarrow> bool" where
  "renders r \<longleftrightarrow>
     page_child (currentPage r) \<and> child (title r) \<and> child (author r)
     \<and> list_all pair_renders (content r)"

section \<open>The page request client (services/geminiService.ts)\<close>

text \<open>
  \<open>processArabicPdf(base64Data, pageNumber)\<close> builds one request, awaits
  \<open>ai.models.generateContent\<close> and parses \<open>response.text\<close>:
  \<^verbatim>\<open>try { return JSON.parse(response.text || "{}") as ProcessingResult; }
  catch (error) { ...; throw new Error("Failed to process the PDF content."); }\<close>
  The external service is a parameter: a function from the request to what the call did,
  either a rejection (which leaves \<open>processArabicPdf\<close> through the \<open>await\<close>, outside the
  \<open>try\<close>) or a response whose \<open>text\<close> is a string or undefined. The prompt is a fixed
  template with two holes, \<^verbatim>\<open>${pageNumber}\<close> and \<^verbatim>\<open>${pageNumber + 1}\<close>;
  \<open>Prompt\<close> keeps the two values. The function does nothing else with the page number,
  so its type is left open: an integer where the caller is typed, a \<open>jsvalue\<close> where the
  component calls. The document may be undefined at run time (see \<open>reader_onload\<close>),
  hence the \<open>option\<close>.
\<close>

datatype 'p prompt = Prompt 'p 'p

record 'p request =
  model :: jsstring
  prompt :: "'p prompt"
  inlineData_mimeType :: jsstring
  inlineData_data :: "jsstring option"
  responseMimeType :: jsstring
  required :: "jsstring list"

datatype service_reply = Throws | Response "jsstring option"

datatype jserror = ServiceError | Error jsstring

definition generateContent_request :: "jsstring option \<Rightarrow> 'p::{one, plus} \<Rightarrow> 'p request" where
  "generateContent_request base64Data pageNumber =
     \<lparr>model = js ''gemini-3-flash-preview'',
      prompt = Prompt pageNumber (pageNumber + 1),
      inlineData_mimeType = js ''application/pdf'',
      inlineData_data = base64Data,
      responseMimeType = js ''application/json'',
      required = [js ''content'', js ''currentPage'', js ''hasMore'']\<rparr>"

definition text_or :: "jsstring option \<Rightarrow> jsstring \<Rightarrow> jsstring" where
  "text_or text d = (case text of None \<Rightarrow> d | Some t \<Rightarrow> if t = [] then d else t)"

definition processArabicPdf ::
  "('p::{one, plus} request \<Rightarrow> service_reply) \<Rightarrow> jsstring option \<Rightarrow> 'p \<Rightarrow> jserror + json" where
  "processArabicPdf generateContent base64Data pageNumber =
     (case generateContent (generateContent_request base64Data pageNumber) of
        Throws \<Rightarrow> Inl ServiceError
      | Response text \<Rightarrow>
          (case JSON_parse (text_or text (js ''{}'')) of
             Some v \<Rightarrow> Inr v
           | None \<Rightarrow> Inl (Error (js ''Failed to process the PDF content.''))))"

definition answers :: "service_reply \<Rightarrow> 'p request \<Rightarrow> service_reply" where
  "answers reply request = reply"

text \<open>
  \<open>answers reply\<close> is the service that gives \<open>reply\<close> to every request. \<open>typed\<close> reads the
  outcome of a call at the type \<open>Promise<ProcessingResult>\<close> the function declares: it is
  \<open>None\<close> when the call returned a value that is not a \<open>ProcessingResult\<close>.
\<close>

definition typed :: "jserror + json \<Rightarrow> (jserror + typed_result) option" where
  "typed outcome =
     (case outcome of
        Inl e \<Rightarrow> Some (Inl e)
      | Inr v \<Rightarrow> map_option Inr (as_ProcessingResult v))"

section \<open>The application component (App.tsx)\<close>

text \<open>
  The component's state is the five \<open>useState\<close> cells, and \<open>mounted\<close>: whether React
  still renders the component. An event handler runs to completion on the state of the
  latest render and may start asynchronous work; the work it starts is returned beside the
  new state, and its continuation is a function of its own that runs on the state at the
  time the work finishes.
  \<^item> \<open>handleFileUpload\<close> (lines 20-53) up to \<open>reader.readAsDataURL(file)\<close>;
    \<open>readerThrows\<close> says whether creating or starting the \<open>FileReader\<close> throws, which
    the outer \<open>catch\<close> handles.
  \<^item> \<open>reader_onload\<close> (lines 35-39): the reader's result is a data URL; the document is
    \<open>split(',')[1]\<close>, undefined when the URL has no comma.
  \<^item> \<open>reader_onload_settled\<close> (lines 39-46): after \<open>await processArabicPdf(base64Data, 1)\<close>.
  \<^item> \<open>loadNextPage\<close> (lines 55-61) up to the \<open>await\<close>; \<open>nextPage\<close> is computed here,
    from the result of the render in which the handler was created. An empty string is
    falsy, so \<open>!currentPdfBase64\<close> also holds for the empty document.
  \<^item> \<open>loadNextPage_settled\<close> (lines 63-77): after the \<open>await\<close>; the updater of
    \<open>setResult\<close> is \<open>mergePage\<close>.
  Of a file the component reads the \<open>type\<close> only. \<open>null\<close> and \<open>undefined\<close> are both
  \<open>None\<close>.

  The result cell holds what the service's reply parsed to, whatever that is.
  \<^item> \<open>setResult(data)\<close> stores \<open>data\<close>. A falsy \<open>data\<close> passes every test of the component
    as \<open>null\<close> does (\<open>!result\<close>, \<open>result && ...\<close>) and is kept as \<open>None\<close>. With a
    truthy \<open>data\<close> the result view is rendered, which calls \<open>result.content.map\<close>:
    \<open>view_of\<close>.
  \<^item> The updater of \<open>setResult\<close> in \<open>loadNextPage\<close> returns \<open>nextData\<close> as it is when
    there is no previous result. Otherwise it spreads \<open>prev.content\<close> and
    \<open>nextData.content\<close> into a new array, which throws unless \<open>nextData.content\<close> is an
    array or a string: \<open>updated\<close>.
  \<^item> React runs the updater and the render outside the \<open>try\<close> blocks of the component.
    When either throws, nothing in App.tsx catches it and React removes the component
    with its state: \<open>unmounted\<close>. \<open>commit\<close> is what becomes of the state when the
    result cell is set.
\<close>

record File =
  type :: jsstring

record App_state =
  isUploading :: bool
  isLoadingNext :: bool
  result :: "raw_result option"
  currentPdfBase64 :: "jsstring option"
  error :: "jsstring option"
  mounted :: bool

datatype async = Reading File | FirstPage "jsstring option" | NextPage jsstring jsvalue

datatype 'a view = Breaks | Blank | Shows 'a

fun split :: "'a \<Rightarrow> 'a list \<Rightarrow> 'a list list" where
  "split sep [] = [[]]"
| "split sep (c # cs) =
     (if c = sep then [] # split sep cs
      else (case split sep cs of [] \<Rightarrow> [[c]] | p # ps \<Rightarrow> (c # p) # ps))"

definition index :: "'a list \<Rightarrow> nat \<Rightarrow> 'a option" where
  "index xs i = (if i < length xs then Some (xs ! i) else None)"

definition unmounted :: App_state where
  "unmounted = \<lparr>isUploading = False, isLoadingNext = False, result = None,
                 currentPdfBase64 = None, error = None, mounted = False\<rparr>"

definition shown :: "raw_result \<Rightarrow> raw_result view" where
  "shown r = (if renders r then Shows r else Breaks)"

definition view_of :: "json \<Rightarrow> raw_result view" where
  "view_of d =
     (if \<not> truthy d then Blank
      else (case array_items (own d ''content'') of
              None \<Rightarrow> Breaks
            | Some items \<Rightarrow> shown (reading items d)))"

definition updated :: "jsvalue \<Rightarrow> raw_result option \<Rightarrow> json \<Rightarrow> raw_result view" where
  "updated nextPage prev nextData =
     (case prev of
        None \<Rightarrow> view_of nextData
      | Some p \<Rightarrow>
          (case iterate (own nextData ''content'') of
             None \<Rightarrow> Breaks
           | Some items \<Rightarrow> shown (mergePage nextPage prev (reading items nextData))))"

definition commit :: "App_state \<Rightarrow> raw_result view \<Rightarrow> App_state" where
  "commit s v =
     (case v of
        Breaks \<Rightarrow> unmounted
      | Blank \<Rightarrow> s\<lparr>result := None\<rparr>
      | Shows r \<Rightarrow> s\<lparr>result := Some r\<rparr>)"

definition handleFileUpload :: "App_state \<Rightarrow> File option \<Rightarrow> bool \<Rightarrow> App_state \<times> async list" where
  "handleFileUpload s f readerThrows =
     (case f of
        None \<Rightarrow> (s, [])
      | Some file \<Rightarrow>
          if type file \<noteq> js ''application/pdf'' then
            (s\<lparr>error := Some (js ''Please upload a PDF file.'')\<rparr>, [])
          else
            (let s1 = s\<lparr>isUploading := True, error := None, result := None\<rparr>
             in if readerThrows then
                  (s1\<lparr>error := Some (js ''Error reading file.''), isUploading := False\<rparr>, [])
                else (s1, [Reading file])))"

definition reader_onload :: "App_state \<Rightarrow> jsstring \<Rightarrow> App_state \<times> async list" where
  "reader_onload s dataUrl =
     (let base64Data = index (split 0x2C dataUrl) 1
      in (s\<lparr>currentPdfBase64 := base64Data\<rparr>, [FirstPage base64Data]))"

definition reader_onload_settled :: "App_state \<Rightarrow> jserror + json \<Rightarrow> App_state" where
  "reader_onload_settled s outcome =
     (case outcome of
        Inr d \<Rightarrow> commit s (view_of d)
      | Inl err \<Rightarrow> s\<lparr>error := Some (js ''Failed to process the PDF. Please try again.'')\<rparr>)
     \<lparr>isUploading := False\<rparr>"

definition loadNextPage :: "App_state \<Rightarrow> App_state \<times> async list" where
  "loadNextPage s =
     (case result s of
        None \<Rightarrow> (s, [])
      | Some r \<Rightarrow>
          (case currentPdfBase64 s of
             None \<Rightarrow> (s, [])
           | Some b \<Rightarrow>
               if b = [] \<or> isLoadingNext s then (s, [])
               else (s\<lparr>isLoadingNext := True\<rparr>, [NextPage b (currentPage r + 1)])))"

definition loadNextPage_settled :: "App_state \<Rightarrow> jsvalue \<Rightarrow> jserror + json \<Rightarrow> App_state" where
  "loadNextPage_settled s nextPage outcome =
     (case outcome of
        Inr nextData \<Rightarrow> commit s (updated nextPage (result s) nextData)
      | Inl err \<Rightarrow> s\<lparr>error := Some (js ''Failed to load the next page.'')\<rparr>)
     \<lparr>isLoadingNext := False\<rparr>"

section \<open>The session as a transition system\<close>

text \<open>
  What the user can do follows from what is rendered. The file input exists only in the
  landing view, \<^verbatim>\<open>{!result && !isUploading && (...)}\<close> (line 110); the header's upload
  button only forwards a click to that input. The next-page button exists only under
  \<^verbatim>\<open>{result && ...}\<close> and \<^verbatim>\<open>{result.hasMore ? ...}\<close>, with
  \<^verbatim>\<open>disabled={isLoadingNext}\<close> (lines 164, 223-226). A component that React has
  removed renders nothing.

  A session is the component's state with the asynchronous operations in flight: the read
  of a file, the request for the first page of a document, the request for a further page
  with the page number \<open>loadNextPage\<close> computed. An event is a user action or the
  completion of an operation in flight; \<open>step\<close> is \<open>None\<close> for an event that cannot
  happen in the state. An operation may stay in flight for ever: the reader has no error
  handler and a request has no timeout. The completion of a page request carries what the
  service did; \<open>processArabicPdf\<close> makes the outcome of it, and the continuation takes
  every outcome.
\<close>

definition file_input_mounted :: "App_state \<Rightarrow> bool" where
  "file_input_mounted s \<longleftrightarrow> mounted s \<and> result s = None \<and> \<not> isUploading s"

definition next_button_enabled :: "App_state \<Rightarrow> bool" where
  "next_button_enabled s \<longleftrightarrow>
     (mounted s \<and>
      (case result s of None \<Rightarrow> False | Some r \<Rightarrow> truthy_opt (hasMore r) \<and> \<not> isLoadingNext s))"

record session =
  ui :: App_state
  inflight :: "async list"

datatype event =
    Change "File option" bool
  | ReaderLoad File jsstring
  | FirstPageSettled "jsstring option" service_reply
  | ClickNext
  | NextPageSettled jsstring jsvalue service_reply

definition started :: "session \<Rightarrow> App_state \<times> async list \<Rightarrow> session" where
  "started \<sigma> r = \<lparr>ui = fst r, inflight = inflight \<sigma> @ snd r\<rparr>"

definition step :: "session \<Rightarrow> event \<Rightarrow> session option" where
  "step \<sigma> ev =
     (case ev of
        Change f readerThrows \<Rightarrow>
          if file_input_mounted (ui \<sigma>)
          then Some (started \<sigma> (handleFileUpload (ui \<sigma>) f readerThrows))
          else None
      | ReaderLoad f dataUrl \<Rightarrow>
          if Reading f \<in> set (inflight \<sigma>)
          then Some (started (\<sigma>\<lparr>inflight := remove1 (Reading f) (inflight \<sigma>)\<rparr>)
                       (reader_onload (ui \<sigma>) dataUrl))
          else None
      | FirstPageSettled b reply \<Rightarrow>
          if FirstPage b \<in> set (inflight \<sigma>)
          then Some \<lparr>ui = reader_onload_settled (ui \<sigma>) (processArabicPdf (answers reply) b (1::jsvalue)),
                     inflight = remove1 (FirstPage b) (inflight \<sigma>)\<rparr>
          else None
      | ClickNext \<Rightarrow>
          if next_button_enabled (ui \<sigma>)
          then Some (started \<sigma> (loadNextPage (ui \<sigma>)))
          else None
      | NextPageSettled b n reply \<Rightarrow>
          if NextPage b n \<in> set (inflight \<sigma>)
          then Some \<lparr>ui = loadNextPage_settled (ui \<sigma>) n
                            (processArabicPdf (answers reply) (Some b) n),
                     inflight = remove1 (NextPage b n) (inflight \<sigma>)\<rparr>
          else None)"

fun run :: "session \<Rightarrow> event list \<Rightarrow> session option" where
  "run \<sigma> [] = Some \<sigma>"
| "run \<sigma> (ev # evs) = (case step \<sigma> ev of None \<Rightarrow> None | Some \<sigma>' \<Rightarrow> run \<sigma>' evs)"

definition initial :: session where
  "initial = \<lparr>ui = \<lparr>isUploading = False, isLoadingNext = False, result = None,
                     currentPdfBase64 = None, error = None, mounted = True\<rparr>,
              inflight = []\<rparr>"

text \<open>
  The shape of a session: nothing in flight and no pending flag set; or one read or one
  first-page request, with \<open>isUploading\<close> set and no result; or one next-page request,
  with \<open>isLoadingNext\<close> set and its page number one more than the current page.
  \<open>is_fetch\<close> tells the page requests from the reads. \<open>sound\<close> says of a session that
  the result it shows renders, and that a removed component shows none and has nothing in
  flight. \<open>conforming\<close> says of an event that, when it completes a page request with a
  reply that parses, the value has the shape of the interface.
\<close>

fun consistent :: "App_state \<Rightarrow> async list \<Rightarrow> bool" where
  "consistent s [] \<longleftrightarrow> \<not> isUploading s \<and> \<not> isLoadingNext s"
| "consistent s [Reading f] \<longleftrightarrow> isUploading s \<and> \<not> isLoadingNext s \<and> result s = None"
| "consistent s [FirstPage b] \<longleftrightarrow> isUploading s \<and> \<not> isLoadingNext s \<and> result s = None"
| "consistent s [NextPage b n] \<longleftrightarrow>
     \<not> isUploading s \<and> isLoadingNext s \<and>
     (case result s of None \<Rightarrow> False | Some r \<Rightarrow> n = currentPage r + 1)"
| "consistent s (a # b # ps) \<longleftrightarrow> False"

definition is_fetch :: "async \<Rightarrow> bool" where
  "is_fetch a = (case a of Reading f \<Rightarrow> False | FirstPage b \<Rightarrow> True | NextPage b n \<Rightarrow> True)"




section \<open>Example values\<close>

text \<open>
  The scenario of the specification: a PDF whose data URL carries the document \<open>QUJD\<close>,
  a first page with one sentence, a second page with one sentence. \<open>reply_seven\<close> is the
  second page's reply with another page number in it.
\<close>

definition pdf_file :: File where
  "pdf_file = \<lparr>type = js ''application/pdf''\<rparr>"

definition text_file :: File where
  "text_file = \<lparr>type = js ''text/plain''\<rparr>"

definition data_url :: jsstring where
  "data_url = js ''data:application/pdf;base64,QUJD''"

definition doc :: jsstring where
  "doc = js ''QUJD''"

definition reply_one :: jsstring where
  \<open>reply_one = js ''{"title":"T","author":"A","content":[{"arabic":"'' @ [0x0623]
     @ js ''","english":"a"}],"currentPage":1,"hasMore":true}''\<close>

definition reply_two :: jsstring where
  \<open>reply_two = js ''{"content":[{"arabic":"'' @ [0x0628]
     @ js ''","english":"b"}],"currentPage":2,"hasMore":false}''\<close>

definition reply_seven :: jsstring where
  \<open>reply_seven = js ''{"content":[{"arabic":"'' @ [0x0628]
     @ js ''","english":"b"}],"currentPage":7,"hasMore":false}''\<close>

definition pair_a :: TranslationPair where
  "pair_a = \<lparr>arabic = [0x0623], english = js ''a'', numberPronunciation = None\<rparr>"

definition pair_b :: TranslationPair where
  "pair_b = \<lparr>arabic = [0x0628], english = js ''b'', numberPronunciation = None\<rparr>"

definition page_one :: typed_result where
  "page_one = \<lparr>title = Some (js ''T''), author = Some (js ''A''), content = [pair_a],
                currentPage = 1, hasMore = True\<rparr>"

definition page_two :: typed_result where
  "page_two = \<lparr>title = None, author = None, content = [pair_b],
                currentPage = 2, hasMore = False\<rparr>"

definition page_seven :: typed_result where
  "page_seven = \<lparr>title = None, author = None, content = [pair_b],
                  currentPage = 7, hasMore = False\<rparr>"

definition value_seven :: json where
  "value_seven =
     JObj [(js ''content'',
              JArr [JObj [(js ''arabic'', JStr [0x0628]), (js ''english'', JStr (js ''b''))]]),
           (js ''currentPage'', JNum (js ''7'')),
           (js ''hasMore'', JBool False)]"

definition item_a :: json where
  "item_a = JObj [(js ''arabic'', JStr [0x0623]), (js ''english'', JStr (js ''a''))]"

definition item_b :: json where
  "item_b = JObj [(js ''arabic'', JStr [0x0628]), (js ''english'', JStr (js ''b''))]"

definition raw_one :: raw_result where
  "raw_one = \<lparr>title = Some (JStr (js ''T'')), author = Some (JStr (js ''A'')),
               content = [item_a], currentPage = Json (JNum (js ''1'')),
               hasMore = Some (JBool True)\<rparr>"

definition raw_seven :: raw_result where
  "raw_seven = reading [item_b] value_seven"

definition state_shown :: App_state where
  "state_shown = \<lparr>isUploading = False, isLoadingNext = False, result = Some raw_one,
                   currentPdfBase64 = Some doc, error = None, mounted = True\<rparr>"


definition first_page_events :: "event list" where
  "first_page_events =
     [Change (Some pdf_file) False,
      ReaderLoad pdf_file data_url,
      FirstPageSettled (Some doc) (Response (Some reply_one))]"


definition page_2 :: jsvalue where
  "page_2 = Json (JNum (js ''1'')) + 1"

definition state_loading :: App_state where
  "state_loading = state_shown\<lparr>isLoadingNext := True\<rparr>"

definition session_loading :: session where
  "session_loading = \<lparr>ui = state_loading, inflight = [NextPage doc page_2]\<rparr>"

definition raw_merged :: "json \<Rightarrow> raw_result" where
  "raw_merged nextData = mergePage page_2 (Some raw_one) (reading [item_b] nextData)"

definition value_two :: json where
  "value_two =
     JObj [(js ''content'', JArr [item_b]),
           (js ''currentPage'', JNum (js ''2'')),
           (js ''hasMore'', JBool False)]"

definition unreadable :: jsstring where
  "unreadable = js ''I could not read page 2.''"

section \<open>Evaluating the examples\<close>

lemma run_first_page:
  "run initial first_page_events = Some \<lparr>ui = state_shown, inflight = []\<rparr>"
  by code_simp


lemma run_clicked:
  "run initial (first_page_events @ [ClickNext]) = Some session_loading"
  by code_simp

lemma parse_two: "JSON_parse reply_two = Some value_two"
  by code_simp

lemma parse_seven: "JSON_parse reply_seven = Some value_seven"
  by code_simp

lemma typed_seven: "as_ProcessingResult value_seven = Some page_seven"
  by code_simp

lemma parse_empty_text: "JSON_parse [] = None"
  by (simp add: JSON_parse_def)

lemma parse_braces: "JSON_parse (js ''{}'') = Some (JObj [])"
  by code_simp

lemma typed_empty_object: "as_ProcessingResult (JObj []) = None"
  by (simp add: as_ProcessingResult_def optional_string_def)

lemma parse_unreadable: "unreadable \<noteq> [] \<and> JSON_parse unreadable = None"
  by code_simp


lemma step_page_seven:
  "step session_loading (NextPageSettled doc page_2 (Response (Some reply_seven)))
   = Some \<lparr>ui = state_shown\<lparr>result := Some (raw_merged value_seven)\<rparr>, inflight = []\<rparr>"
  by code_simp


lemma step_absent_reply:
  "step session_loading (NextPageSettled doc page_2 (Response None))
   = Some \<lparr>ui = unmounted, inflight = []\<rparr>"
  by code_simp

lemma first_page_empty_reply:
  "run initial [Change (Some pdf_file) False, ReaderLoad pdf_file data_url,
                FirstPageSettled (Some doc) (Response (Some []))]
   = Some \<lparr>ui = unmounted, inflight = []\<rparr>"
  by code_simp

lemma numbers:
  "number_of page_2 = Some 2 \<and> number_of (currentPage raw_seven) = Some 7
   \<and> number_of (currentPage (raw_merged value_seven)) = Some 2"
  by code_simp

lemma zero_literals:
  "map (\<lambda>l. zero_literal (js l))
     [''0'', ''-0'', ''0.000'', ''0e5'', ''-0.0E-3'', ''1'', ''0.1'', ''10'', ''1e-5'']
   = [True, True, True, True, True, False, False, False, False]"
  by code_simp

lemma zero_literal_guard:
  "k < 324 \<Longrightarrow> 0 < d \<Longrightarrow> \<not> d * 2 ^ 1075 \<le> (10::nat) ^ k"
proof -
  assume k: "k < 324" and d: "0 < d"
  have "(10::nat) ^ k \<le> 10 ^ 323"
    using k by (intro power_increasing) simp_all
  also have "\<dots> < 2 ^ 1075" by simp
  also have "\<dots> \<le> d * 2 ^ 1075" using d by simp
  finally show ?thesis by simp
qed

section \<open>The shape of a session is invariant\<close>

lemma consistent_cases:
  assumes "consistent s ps"
  obtains
    (idle) "ps = []" "\<not> isUploading s" "\<not> isLoadingNext s"
  | (reading) f where "ps = [Reading f]" "isUploading s" "\<not> isLoadingNext s" "result s = None"
  | (first) b where "ps = [FirstPage b]" "isUploading s" "\<not> isLoadingNext s" "result s = None"
  | (nxt) b n r where "ps = [NextPage b n]" "\<not> isUploading s" "isLoadingNext s"
      "result s = Some r" "n = currentPage r + 1"
  using assms by (cases "(s, ps)" rule: consistent.cases) (auto split: option.splits)

lemma step_ChangeE:
  assumes "step \<sigma> (Change f t) = Some \<sigma>'"
  obtains "file_input_mounted (ui \<sigma>)" "\<sigma>' = started \<sigma> (handleFileUpload (ui \<sigma>) f t)"
  using assms by (auto simp: step_def split: if_splits)

lemma step_ReaderLoadE:
  assumes "step \<sigma> (ReaderLoad f u) = Some \<sigma>'"
  obtains "Reading f \<in> set (inflight \<sigma>)"
    "\<sigma>' = started (\<sigma>\<lparr>inflight := remove1 (Reading f) (inflight \<sigma>)\<rparr>) (reader_onload (ui \<sigma>) u)"
  using assms by (auto simp: step_def split: if_splits)

lemma step_FirstPageSettledE:
  assumes "step \<sigma> (FirstPageSettled b y) = Some \<sigma>'"
  obtains "FirstPage b \<in> set (inflight \<sigma>)"
    "\<sigma>' = \<lparr>ui = reader_onload_settled (ui \<sigma>) (processArabicPdf (answers y) b (1::jsvalue)),
           inflight = remove1 (FirstPage b) (inflight \<sigma>)\<rparr>"
  using assms by (auto simp: step_def split: if_splits)

lemma step_ClickNextE:
  assumes "step \<sigma> ClickNext = Some \<sigma>'"
  obtains "next_button_enabled (ui \<sigma>)" "\<sigma>' = started \<sigma> (loadNextPage (ui \<sigma>))"
  using assms by (auto simp: step_def split: if_splits)

lemma step_NextPageSettledE:
  assumes "step \<sigma> (NextPageSettled b n y) = Some \<sigma>'"
  obtains "NextPage b n \<in> set (inflight \<sigma>)"
    "\<sigma>' = \<lparr>ui = loadNextPage_settled (ui \<sigma>) n (processArabicPdf (answers y) (Some b) n),
           inflight = remove1 (NextPage b n) (inflight \<sigma>)\<rparr>"
  using assms by (auto simp: step_def split: if_splits)

lemma reader_onload_settled_flags:
  "\<not> isUploading (reader_onload_settled s outcome)"
  "\<not> isLoadingNext s \<Longrightarrow> \<not> isLoadingNext (reader_onload_settled s outcome)"
  by (auto simp: reader_onload_settled_def commit_def unmounted_def
           split: sum.splits view.splits)

lemma loadNextPage_settled_flags:
  "\<not> isLoadingNext (loadNextPage_settled s n outcome)"
  "\<not> isUploading s \<Longrightarrow> \<not> isUploading (loadNextPage_settled s n outcome)"
  by (auto simp: loadNextPage_settled_def commit_def unmounted_def
           split: sum.splits view.splits)

lemma step_Change:
  assumes "consistent (ui \<sigma>) (inflight \<sigma>)" "step \<sigma> (Change f t) = Some \<sigma>'"
  shows "consistent (ui \<sigma>') (inflight \<sigma>')"
proof -
  from assms(2) have m: "file_input_mounted (ui \<sigma>)"
    and \<sigma>': "\<sigma>' = started \<sigma> (handleFileUpload (ui \<sigma>) f t)"
    by (auto elim: step_ChangeE)
  from assms(1) m show ?thesis
    by (cases rule: consistent_cases)
       (auto simp: \<sigma>' started_def handleFileUpload_def Let_def file_input_mounted_def
             split: option.splits)
qed

lemma step_ReaderLoad:
  assumes "consistent (ui \<sigma>) (inflight \<sigma>)" "step \<sigma> (ReaderLoad f u) = Some \<sigma>'"
  shows "consistent (ui \<sigma>') (inflight \<sigma>')"
proof -
  from assms(2) have mem: "Reading f \<in> set (inflight \<sigma>)"
    and \<sigma>': "\<sigma>' = started (\<sigma>\<lparr>inflight := remove1 (Reading f) (inflight \<sigma>)\<rparr>)
                 (reader_onload (ui \<sigma>) u)"
    by (auto elim: step_ReaderLoadE)
  from assms(1) mem show ?thesis
    by (cases rule: consistent_cases) (auto simp: \<sigma>' started_def reader_onload_def Let_def)
qed

lemma step_FirstPageSettled:
  assumes "consistent (ui \<sigma>) (inflight \<sigma>)" "step \<sigma> (FirstPageSettled b y) = Some \<sigma>'"
  shows "consistent (ui \<sigma>') (inflight \<sigma>')"
proof -
  from assms(2) have mem: "FirstPage b \<in> set (inflight \<sigma>)" and
    \<sigma>': "\<sigma>' = \<lparr>ui = reader_onload_settled (ui \<sigma>) (processArabicPdf (answers y) b (1::jsvalue)),
               inflight = remove1 (FirstPage b) (inflight \<sigma>)\<rparr>"
    by (auto elim: step_FirstPageSettledE)
  from assms(1) mem show ?thesis
    by (cases rule: consistent_cases) (auto simp: \<sigma>' reader_onload_settled_flags)
qed

lemma step_ClickNext:
  assumes "consistent (ui \<sigma>) (inflight \<sigma>)" "step \<sigma> ClickNext = Some \<sigma>'"
  shows "consistent (ui \<sigma>') (inflight \<sigma>')"
proof -
  from assms(2) have en: "next_button_enabled (ui \<sigma>)"
    and \<sigma>': "\<sigma>' = started \<sigma> (loadNextPage (ui \<sigma>))"
    by (auto elim: step_ClickNextE)
  from assms(1) en show ?thesis
    by (cases rule: consistent_cases)
       (auto simp: \<sigma>' started_def loadNextPage_def next_button_enabled_def
             split: option.splits)
qed

lemma step_NextPageSettled:
  assumes "consistent (ui \<sigma>) (inflight \<sigma>)" "step \<sigma> (NextPageSettled b n y) = Some \<sigma>'"
  shows "consistent (ui \<sigma>') (inflight \<sigma>')"
proof -
  from assms(2) have mem: "NextPage b n \<in> set (inflight \<sigma>)" and
    \<sigma>': "\<sigma>' = \<lparr>ui = loadNextPage_settled (ui \<sigma>) n (processArabicPdf (answers y) (Some b) n),
               inflight = remove1 (NextPage b n) (inflight \<sigma>)\<rparr>"
    by (auto elim: step_NextPageSettledE)
  from assms(1) mem show ?thesis
    by (cases rule: consistent_cases) (auto simp: \<sigma>' loadNextPage_settled_flags)
qed

lemma step_consistent:
  assumes "consistent (ui \<sigma>) (inflight \<sigma>)" "step \<sigma> ev = Some \<sigma>'"
  shows "consistent (ui \<sigma>') (inflight \<sigma>')"
  using assms
  by (cases ev)
     (auto intro: step_Change step_ReaderLoad step_FirstPageSettled step_ClickNext
        step_NextPageSettled)

lemma run_consistent:
  "consistent (ui \<sigma>) (inflight \<sigma>) \<Longrightarrow> run \<sigma> evs = Some \<sigma>'
   \<Longrightarrow> consistent (ui \<sigma>') (inflight \<sigma>')"
proof (induction evs arbitrary: \<sigma>)
  case Nil
  then show ?case by simp
next
  case (Cons ev evs)
  then show ?case by (auto split: option.splits dest: step_consistent)
qed

lemma reachable_consistent:
  "run initial evs = Some \<sigma> \<Longrightarrow> consistent (ui \<sigma>) (inflight \<sigma>)"
  by (rule run_consistent [of initial]) (simp_all add: initial_def)

section \<open>What is shown renders\<close>

lemma shown_Shows: "shown r = Shows m \<Longrightarrow> m = r \<and> renders r"
  by (auto simp: shown_def split: if_splits)


lemma updated_Some:
  assumes "updated n (Some p) d = Shows m"
  obtains items where "iterate (own d ''content'') = Some items"
    "m = mergePage n (Some p) (reading items d)" "renders m"
  using assms by (auto simp: updated_def split: option.splits dest: shown_Shows)

lemma updated_Some_not_Blank: "updated n (Some p) d \<noteq> Blank"
  by (auto simp: updated_def shown_def split: option.splits)








section \<open>The result only grows\<close>



lemma number_of_one: "number_of (1::jsvalue) = Some 1"
  by code_simp




section \<open>Replies of the interface's shape keep the component mounted\<close>









section \<open>An upload\<close>



section \<open>JSON.parse on standard texts\<close>

lemma JSON_parse_accepts:
  \<open>map (\<lambda>s. JSON_parse (js s))
     [''0'', ''-0'', ''10'', ''1.5'', ''1e5'', ''1E-5'', ''-12.50E+0'', ''"a"'', ''true'',
      ''false'', ''null'', '' [ ] '', ''{ }'', ''[[],{}]'', ''{"a":1,"b":[2],"a":3}'']
   = [Some (JNum (js ''0'')), Some (JNum (js ''-0'')), Some (JNum (js ''10'')),
      Some (JNum (js ''1.5'')), Some (JNum (js ''1e5'')), Some (JNum (js ''1E-5'')),
      Some (JNum (js ''-12.50E+0'')), Some (JStr (js ''a'')), Some (JBool True),
      Some (JBool False), Some JNull, Some (JArr []), Some (JObj []),
      Some (JArr [JArr [], JObj []]),
      Some (JObj [(js ''a'', JNum (js ''3'')), (js ''b'', JArr [JNum (js ''2'')])])]\<close>
  by code_simp

lemma JSON_parse_rejects:
  \<open>map (\<lambda>s. JSON_parse (js s))
     ['''', '' '', ''[1,]'', ''[01]'', ''[1.]'', ''[1e]'', ''[-]'', ''.5'', ''+1'', ''0x10'',
      ''{"a":1,}'', ''{"a" 1}'', ''{"a"}'', ''{a:1}'', ''{,}'', ''["a":1]'', ''[1 2]'',
      ''"abc'', ''tru'', ''True'', ''true false'', ''[[]'', '']'', ''{}}'', ''undefined'']
   = replicate 25 None\<close>
  by code_simp

lemma JSON_parse_escapes:
  \<open>JSON_parse (js ''["a'' @ [0x5C] @ js ''u0627'' @ [0x5C] @ js ''n'' @ [0x5C] @ js ''/'' @ [0x5C]
       @ js ''u00e9'' @ [0x0628] @ js ''"]'')
     = Some (JArr [JStr [0x61, 0x0627, 0x0A, 0x2F, 0xE9, 0x0628]])
   \<and> JSON_parse [0x22, 0x5C, 0x78, 0x22] = None
   \<and> JSON_parse [0x22, 0x5C, 0x75, 0x31, 0x32, 0x22] = None
   \<and> JSON_parse [0x22, 0x0A, 0x22] = None
   \<and> JSON_parse [0xFEFF, 0x7B, 0x7D] = None\<close>
  by code_simp

section \<open>Evaluating the session on the examples\<close>

lemma fetch_seven:
  "processArabicPdf (answers (Response (Some reply_seven))) (Some doc) n = Inr value_seven"
  by (simp add: processArabicPdf_def answers_def text_or_def parse_seven)
     (simp add: reply_seven_def)


lemma step_click:
  "step \<lparr>ui = state_shown, inflight = []\<rparr> ClickNext = Some session_loading"
  by code_simp


lemma iterate_seven: "iterate (own value_seven ''content'') = Some [item_b]"
  by code_simp

section \<open>The page accumulator\<close>

text \<open>
  C1. For every \<open>previous\<close> with content of length m and every \<open>next\<close> with content of
  length n, the merged content has length m + n and is \<open>previous.content\<close> followed by
  \<open>next.content\<close>, each page's own order kept.
\<close>

theorem mergePage_content:
  "content (mergePage nextPage (Some previous) next) = content previous @ content next
   \<and> length (content (mergePage nextPage (Some previous) next))
       = length (content previous) + length (content next)"
  by (simp add: mergePage_def)

theorem mergePage_content_witness:
  "content (mergePage 2 (Some page_one) page_two) = [pair_a, pair_b]
   \<and> length (content (mergePage 2 (Some page_one) page_two)) = 2"
  using mergePage_content [of 2 page_one page_two]
  by (simp add: page_one_def page_two_def)

text \<open>
  C2, as stated: with a previous result present, the merged \<open>currentPage\<close> is
  \<open>next.currentPage\<close>. It is not: the updater writes \<open>currentPage: nextPage\<close> over the
  value spread from \<open>nextData\<close>. In the session that has shown page 1 and has asked for
  the next page, \<open>loadNextPage\<close> has requested page 2; when the reply says page 7, the
  merged result says page 2.
\<close>

theorem mergePage_currentPage_counterexample:
  "currentPage (mergePage 2 (Some page_one) page_seven) \<noteq> currentPage page_seven
   \<and> run initial (first_page_events @ [ClickNext]) = Some session_loading
   \<and> step session_loading (NextPageSettled doc page_2 (Response (Some reply_seven)))
     = Some \<lparr>ui = state_shown\<lparr>result := Some (raw_merged value_seven)\<rparr>, inflight = []\<rparr>
   \<and> number_of page_2 = Some 2
   \<and> number_of (currentPage (raw_merged value_seven)) = Some 2
   \<and> number_of (currentPage raw_seven) = Some 7"
  using run_clicked step_page_seven numbers
  by (simp add: mergePage_def page_one_def page_seven_def)

text \<open>
  C2, amended. In every session reachable from the initial one that shows a result
  \<open>previous\<close>, a click on the next-page button makes \<open>loadNextPage\<close> request the page
  \<open>previous.currentPage + 1\<close> of the stored document and nothing else; when that request
  returns \<open>nextData\<close> and the component is still mounted afterwards, the result shown is
  the merge of \<open>previous\<close> with \<open>nextData\<close>: its \<open>currentPage\<close> is the page number that
  was requested, whatever \<open>nextData.currentPage\<close> is, and its \<open>hasMore\<close> is
  \<open>nextData.hasMore\<close>. Where \<open>previous.currentPage\<close> is an integer k and k + 1 is within
  the integers that JavaScript numbers hold exactly, the requested page number is k + 1.
  Of the updater alone: for every page number it is given, every previous result and every
  next one, the merged \<open>currentPage\<close> is the page number given and the merged \<open>hasMore\<close> is
  that of the next one.
\<close>

theorem merged_page_is_requested_page:
  assumes "run initial evs = Some \<sigma>"
    and "result (ui \<sigma>) = Some previous"
    and "step \<sigma> ClickNext = Some \<sigma>1"
    and "step \<sigma>1 (NextPageSettled b n reply) = Some \<sigma>2"
    and "processArabicPdf (answers reply) (Some b) n = Inr nextData"
    and "mounted (ui \<sigma>2)"
  shows "currentPdfBase64 (ui \<sigma>) = Some b \<and> inflight \<sigma>1 = [NextPage b n]
         \<and> n = currentPage previous + 1
         \<and> (\<exists>items. iterate (own nextData ''content'') = Some items
              \<and> result (ui \<sigma>2) = Some (mergePage n (Some previous) (reading items nextData)))
         \<and> (\<forall>merged. result (ui \<sigma>2) = Some merged \<longrightarrow>
              currentPage merged = n \<and> hasMore merged = own nextData ''hasMore'')
         \<and> (\<forall>k. number_of (currentPage previous) = Some k \<and> \<bar>k + 1\<bar> \<le> 9007199254740992
              \<longrightarrow> number_of n = Some (k + 1))
         \<and> (\<forall>page earlier later.
              currentPage (mergePage page (Some earlier) later) = page
              \<and> hasMore (mergePage page (Some earlier) later) = hasMore later)"
proof -
  from assms(1) have c: "consistent (ui \<sigma>) (inflight \<sigma>)"
    by (rule reachable_consistent)
  from assms(3) have en: "next_button_enabled (ui \<sigma>)"
    and \<sigma>1: "\<sigma>1 = started \<sigma> (loadNextPage (ui \<sigma>))"
    by (auto elim: step_ClickNextE)
  from c en assms(2) have idle: "inflight \<sigma> = []"
    by (cases rule: consistent_cases) (auto simp: next_button_enabled_def)
  from assms(4) have mem: "NextPage b n \<in> set (inflight \<sigma>1)" and
    \<sigma>2: "\<sigma>2 = \<lparr>ui = loadNextPage_settled (ui \<sigma>1) n (processArabicPdf (answers reply) (Some b) n),
               inflight = remove1 (NextPage b n) (inflight \<sigma>1)\<rparr>"
    by (auto elim: step_NextPageSettledE)
  from mem idle assms(2) have
    b: "currentPdfBase64 (ui \<sigma>) = Some b" and n: "n = currentPage previous + 1"
    and i: "inflight \<sigma>1 = [NextPage b n]" and r1: "result (ui \<sigma>1) = Some previous"
    by (auto simp: \<sigma>1 started_def loadNextPage_def split: option.splits if_splits)
  have u: "ui \<sigma>2 = (commit (ui \<sigma>1) (updated n (Some previous) nextData))\<lparr>isLoadingNext := False\<rparr>"
    by (simp add: \<sigma>2 assms(5) loadNextPage_settled_def r1)
  have "\<exists>items. iterate (own nextData ''content'') = Some items
          \<and> result (ui \<sigma>2) = Some (mergePage n (Some previous) (reading items nextData))"
  proof (cases "updated n (Some previous) nextData")
    case Breaks
    with u assms(6) show ?thesis
      by (simp add: commit_def unmounted_def)
  next
    case Blank
    then show ?thesis
      by (simp add: updated_Some_not_Blank)
  next
    case (Shows m)
    then obtain items where "iterate (own nextData ''content'') = Some items"
      "m = mergePage n (Some previous) (reading items nextData)"
      by (auto elim: updated_Some)
    with u Shows show ?thesis
      by (simp add: commit_def)
  qed
  moreover have "number_of n = Some (k + 1)"
    if "number_of (currentPage previous) = Some k" "\<bar>k + 1\<bar> \<le> 9007199254740992" for k
    using that by (simp add: n plus_jsvalue_def number_of_one)
  ultimately show ?thesis
    using b n i by (auto simp: mergePage_def reading_def)
qed

theorem merged_page_is_requested_page_witness:
  "run initial first_page_events = Some \<lparr>ui = state_shown, inflight = []\<rparr>
   \<and> result state_shown = Some raw_one
   \<and> step \<lparr>ui = state_shown, inflight = []\<rparr> ClickNext = Some session_loading
   \<and> step session_loading (NextPageSettled doc page_2 (Response (Some reply_seven)))
     = Some \<lparr>ui = state_shown\<lparr>result := Some (raw_merged value_seven)\<rparr>, inflight = []\<rparr>
   \<and> processArabicPdf (answers (Response (Some reply_seven))) (Some doc) page_2 = Inr value_seven
   \<and> inflight session_loading = [NextPage doc page_2]
   \<and> page_2 = currentPage raw_one + 1
   \<and> currentPage (raw_merged value_seven) = page_2
   \<and> hasMore (raw_merged value_seven) = Some (JBool False)
   \<and> number_of (currentPage raw_one) = Some 1
   \<and> number_of page_2 = Some 2"
proof -
  have m: "mounted (ui \<lparr>ui = state_shown\<lparr>result := Some (raw_merged value_seven)\<rparr>,
                       inflight = []\<rparr>)"
    by (simp add: state_shown_def)
  have r: "result (ui \<lparr>ui = state_shown, inflight = []\<rparr>) = Some raw_one"
    by (simp add: state_shown_def)
  have k: "number_of (currentPage raw_one) = Some 1"
    by code_simp
  have h: "own value_seven ''hasMore'' = Some (JBool False)"
    by code_simp
  note t = merged_page_is_requested_page
             [OF run_first_page r step_click step_page_seven fetch_seven m]
  note i = t [THEN conjunct2, THEN conjunct1]
  note n = t [THEN conjunct2, THEN conjunct2, THEN conjunct1]
  note e = t [THEN conjunct2, THEN conjunct2, THEN conjunct2, THEN conjunct2, THEN conjunct1,
              rule_format, of "raw_merged value_seven"]
  note f = t [THEN conjunct2, THEN conjunct2, THEN conjunct2, THEN conjunct2, THEN conjunct2,
              THEN conjunct1, rule_format, of 1]
  have s: "result (ui \<lparr>ui = state_shown\<lparr>result := Some (raw_merged value_seven)\<rparr>,
                       inflight = []\<rparr>) = Some (raw_merged value_seven)"
    by simp
  from e [OF s] h have c: "currentPage (raw_merged value_seven) = page_2"
    "hasMore (raw_merged value_seven) = Some (JBool False)"
    by simp_all
  from f k have p: "number_of page_2 = Some 2"
    by simp
  have a: "result state_shown = Some raw_one"
    by (simp add: state_shown_def)
  from run_first_page a step_click step_page_seven fetch_seven [of page_2] i n c k p
  show ?thesis
    by blast
qed

text \<open>
  C5. Merging when no previous result exists returns the fetched page unchanged.
\<close>

theorem mergePage_absent:
  "mergePage nextPage None next = next"
  by (simp add: mergePage_def)

theorem mergePage_absent_witness:
  "mergePage 2 None page_two = page_two"
  using mergePage_absent [of 2 page_two] by simp

text \<open>
  C9. With a previous result present, the merged title and author are those of \<open>next\<close>,
  also when \<open>next\<close> has none: an absent title or author of the later page erases the
  earlier page's.
\<close>

theorem mergePage_title_author:
  "title (mergePage nextPage (Some previous) next) = title next
   \<and> author (mergePage nextPage (Some previous) next) = author next"
  by (simp add: mergePage_def)

theorem mergePage_title_author_witness:
  "title page_one = Some (js ''T'') \<and> author page_one = Some (js ''A'')
   \<and> title (mergePage 2 (Some page_one) page_two) = None
   \<and> author (mergePage 2 (Some page_one) page_two) = None"
  using mergePage_title_author [of 2 page_one page_two]
  by (simp add: page_one_def page_two_def)

section \<open>The page request client\<close>

text \<open>
  C3, as stated: whenever \<open>processArabicPdf\<close> returns, the returned \<open>currentPage\<close> is the
  requested page number. It is not: the parsed reply is returned as it is. Asked for page 2
  and answered with \<open>reply_seven\<close>, the call returns a result whose \<open>currentPage\<close> is 7.
\<close>

theorem processArabicPdf_currentPage_counterexample:
  "processArabicPdf (answers (Response (Some reply_seven))) (Some doc) (2::int) = Inr value_seven
   \<and> as_ProcessingResult value_seven = Some page_seven
   \<and> currentPage page_seven \<noteq> 2"
  by (simp add: fetch_seven typed_seven) (simp add: page_seven_def)

text \<open>
  C3, amended. Whenever \<open>processArabicPdf\<close> returns, the value returned is the JSON value
  of the service's reply text, or of \<^verbatim>\<open>{}\<close> when the text is empty or undefined: its
  \<open>currentPage\<close> is the one the reply carries, and nothing compares it with the requested
  page number.
\<close>

theorem processArabicPdf_returns_reply:
  assumes "processArabicPdf generateContent base64Data pageNumber = Inr v"
  shows "\<exists>text. generateContent (generateContent_request base64Data pageNumber) = Response text
               \<and> JSON_parse (text_or text (js ''{}'')) = Some v"
  using assms by (auto simp: processArabicPdf_def split: service_reply.splits option.splits)

theorem processArabicPdf_returns_reply_witness:
  "processArabicPdf (answers (Response (Some reply_seven))) (Some doc) (2::int) = Inr value_seven
   \<and> (\<exists>text. answers (Response (Some reply_seven)) (generateContent_request (Some doc) (2::int))
               = Response text
             \<and> JSON_parse (text_or text (js ''{}'')) = Some value_seven)"
  using processArabicPdf_returns_reply [OF fetch_seven [of "2::int"]] fetch_seven [of "2::int"]
  by simp

text \<open>
  C4, as stated: for every reply whose text is not valid JSON the call fails, and on such
  a next-page failure the session state is unchanged. The empty text is not valid JSON, yet
  the call returns the empty object; and a failed next-page request does change the session
  state: it sets the error message.
\<close>

theorem parse_failure_counterexample:
  "JSON_parse [] = None
   \<and> processArabicPdf (answers (Response (Some []))) (Some doc) (2::int) = Inr (JObj [])
   \<and> error (loadNextPage_settled state_loading page_2
              (Inl (Error (js ''Failed to process the PDF content.''))))
     \<noteq> error state_loading"
  by (simp add: parse_empty_text processArabicPdf_def answers_def text_or_def parse_braces
        loadNextPage_settled_def state_loading_def state_shown_def)

text \<open>
  C4, amended. For every reply whose text is not empty and not valid JSON,
  \<open>processArabicPdf\<close> fails with the error \<open>Failed to process the PDF content.\<close>; when
  that is the outcome of a next-page request, the session keeps its result (the accumulated
  content with it), its document and its upload flag, takes the error message
  \<open>Failed to load the next page.\<close> and clears \<open>isLoadingNext\<close>.
\<close>

theorem parse_failure_keeps_result:
  assumes "generateContent (generateContent_request base64Data pageNumber) = Response (Some text)"
    and "text \<noteq> []" and "JSON_parse text = None"
  shows "processArabicPdf generateContent base64Data pageNumber
           = Inl (Error (js ''Failed to process the PDF content.''))
         \<and> (NextPage b n \<in> set (inflight \<sigma>) \<longrightarrow>
              step \<sigma> (NextPageSettled b n (Response (Some text)))
                = Some \<lparr>ui = (ui \<sigma>)\<lparr>error := Some (js ''Failed to load the next page.''),
                                   isLoadingNext := False\<rparr>,
                         inflight = remove1 (NextPage b n) (inflight \<sigma>)\<rparr>)"
  using assms
  by (simp add: processArabicPdf_def text_or_def step_def answers_def loadNextPage_settled_def)

theorem parse_failure_keeps_result_witness:
  "unreadable \<noteq> [] \<and> JSON_parse unreadable = None
   \<and> processArabicPdf (answers (Response (Some unreadable))) (Some doc) (2::int)
       = Inl (Error (js ''Failed to process the PDF content.''))
   \<and> step session_loading (NextPageSettled doc page_2 (Response (Some unreadable)))
       = Some \<lparr>ui = state_shown\<lparr>error := Some (js ''Failed to load the next page.'')\<rparr>,
                inflight = []\<rparr>"
proof -
  have a: "answers (Response (Some unreadable)) (generateContent_request (Some doc) (2::int))
           = Response (Some unreadable)"
    by (simp add: answers_def)
  from parse_unreadable have b: "unreadable \<noteq> []" and c: "JSON_parse unreadable = None"
    by simp_all
  from parse_failure_keeps_result
         [of "answers (Response (Some unreadable))" "Some doc" "2::int" unreadable doc page_2
             session_loading, OF a b c] b c
  show ?thesis
    by (simp add: session_loading_def state_loading_def state_shown_def)
qed

text \<open>
  C10. When the reply text is empty or undefined, \<open>processArabicPdf\<close> does not fail: it
  parses \<^verbatim>\<open>{}\<close> and returns the object without any property, so without \<open>content\<close>,
  \<open>currentPage\<close> and \<open>hasMore\<close>, which is not a \<open>ProcessingResult\<close>.
\<close>

theorem empty_reply_is_empty_object:
  assumes "generateContent (generateContent_request base64Data pageNumber) = Response text"
    and "text = None \<or> text = Some []"
  shows "processArabicPdf generateContent base64Data pageNumber = Inr (JObj [])
         \<and> typed (processArabicPdf generateContent base64Data pageNumber) = None"
  using assms
  by (auto simp: processArabicPdf_def text_or_def parse_braces typed_def typed_empty_object)

theorem empty_reply_is_empty_object_witness:
  "processArabicPdf (answers (Response None)) (Some doc) (1::int) = Inr (JObj [])
   \<and> typed (processArabicPdf (answers (Response None)) (Some doc) (1::int)) = None
   \<and> processArabicPdf (answers (Response (Some []))) (Some doc) (1::int) = Inr (JObj [])
   \<and> typed (processArabicPdf (answers (Response (Some []))) (Some doc) (1::int)) = None"
  using empty_reply_is_empty_object [of "answers (Response None)" "Some doc" "1::int" None]
    empty_reply_is_empty_object [of "answers (Response (Some []))" "Some doc" "1::int" "Some []"]
  by (simp add: answers_def typed_def typed_empty_object)

section \<open>File intake\<close>

text \<open>
  C6. For every file whose \<open>type\<close> is not \<open>application/pdf\<close>, \<open>handleFileUpload\<close> sets
  the error message \<open>Please upload a PDF file.\<close> and starts nothing: no read, hence no
  page request. As an event of the session it changes the error message only.
\<close>

theorem non_pdf_upload_rejected:
  assumes "type f \<noteq> js ''application/pdf''"
  shows "handleFileUpload s (Some f) readerThrows
           = (s\<lparr>error := Some (js ''Please upload a PDF file.'')\<rparr>, [])
         \<and> (file_input_mounted (ui \<sigma>) \<longrightarrow>
              step \<sigma> (Change (Some f) readerThrows)
                = Some (\<sigma>\<lparr>ui := (ui \<sigma>)\<lparr>error := Some (js ''Please upload a PDF file.'')\<rparr>\<rparr>))"
  using assms by (simp add: handleFileUpload_def step_def started_def)

theorem non_pdf_upload_rejected_witness:
  "type text_file \<noteq> js ''application/pdf''
   \<and> file_input_mounted (ui initial)
   \<and> handleFileUpload (ui initial) (Some text_file) False
       = ((ui initial)\<lparr>error := Some (js ''Please upload a PDF file.'')\<rparr>, [])
   \<and> step initial (Change (Some text_file) False)
       = Some (initial\<lparr>ui := (ui initial)\<lparr>error := Some (js ''Please upload a PDF file.'')\<rparr>\<rparr>)"
proof -
  have a: "type text_file \<noteq> js ''application/pdf''"
    by code_simp
  have b: "file_input_mounted (ui initial)"
    by (simp add: file_input_mounted_def initial_def)
  from non_pdf_upload_rejected [OF a, of "ui initial" False initial] a b
  show ?thesis by simp
qed

section \<open>The session\<close>




text \<open>
  C8. In every session reachable from the initial one, at most one page request is in
  flight. While one is, \<open>loadNextPage\<close> starts nothing, the next-page button cannot be
  clicked and the file input is not mounted; and the button cannot be clicked whenever
  \<open>isLoadingNext\<close> is set.
\<close>

theorem one_fetch_outstanding:
  assumes "run initial evs = Some \<sigma>"
  shows "length (filter is_fetch (inflight \<sigma>)) \<le> 1
         \<and> (filter is_fetch (inflight \<sigma>) \<noteq> [] \<longrightarrow>
              loadNextPage (ui \<sigma>) = (ui \<sigma>, []) \<and> step \<sigma> ClickNext = None
              \<and> \<not> file_input_mounted (ui \<sigma>))
         \<and> (isLoadingNext (ui \<sigma>) \<longrightarrow>
              \<not> next_button_enabled (ui \<sigma>) \<and> loadNextPage (ui \<sigma>) = (ui \<sigma>, []))"
proof -
  from assms have "consistent (ui \<sigma>) (inflight \<sigma>)"
    by (rule reachable_consistent)
  then show ?thesis
    by (cases rule: consistent_cases)
       (auto simp: is_fetch_def loadNextPage_def step_def next_button_enabled_def
          file_input_mounted_def split: option.splits)
qed

theorem one_fetch_outstanding_witness:
  "run initial (first_page_events @ [ClickNext]) = Some session_loading
   \<and> filter is_fetch (inflight session_loading) = [NextPage doc page_2]
   \<and> isLoadingNext (ui session_loading)
   \<and> loadNextPage (ui session_loading) = (ui session_loading, [])
   \<and> step session_loading ClickNext = None
   \<and> \<not> next_button_enabled (ui session_loading)"
proof -
  have f: "filter is_fetch (inflight session_loading) = [NextPage doc page_2]"
    by (simp add: is_fetch_def session_loading_def)
  have l: "isLoadingNext (ui session_loading)"
    by (simp add: session_loading_def state_loading_def)
  from one_fetch_outstanding [OF run_clicked] f l run_clicked show ?thesis
    by simp
qed

end
